theory Spec2Isabelle
  imports Complex_Main
begin

section \<open>Data model\<close>

text \<open>
  The hybrid playback orchestrator of \<^verbatim>\<open>src/lib/spotify/player.ts\<close>, the player store
  and the \<^verbatim>\<open>useSpotifyPlayer\<close> hook, as pure functions over an explicit state.

  JavaScript numbers are modelled as \<^typ>\<open>real\<close> (no NaN, no infinities). Everything the
  browser, the network or the vendor SDK decides is an argument of the function that
  awaits it. Console output is not modelled.
\<close>

subsection \<open>Errors and promises\<close>

text \<open>
  The values the code throws: a \<^verbatim>\<open>DOMException\<close> with its name and message, a plain
  \<^verbatim>\<open>Error\<close> with its message, the module's own \<^verbatim>\<open>AutoplayBlockedError\<close> (an
  \<^verbatim>\<open>Error\<close> whose message is fixed by its constructor), and any value that is not an
  \<^verbatim>\<open>Error\<close>.
\<close>

datatype js_error =
    DOMException string string
  | Error string
  | AutoplayBlockedError
  | NonError

text \<open>An awaited promise resolves, rejects, or never settles.\<close>

datatype 'a settled = Resolved 'a | Rejected js_error | Pending

subsection \<open>types.ts\<close>

record Album =
  album_id :: string
  album_name :: string
  images :: "(string \<times> nat \<times> nat) list"

record SpotifyTrack =
  track_id :: string
  name :: string
  artists :: "(string \<times> string) list"
  album :: Album
  duration_ms :: nat
  preview_url :: "string option"
  uri :: string
  external_urls_spotify :: string

text \<open>\<^verbatim>\<open>PlaybackType = 'preview' | 'full' | null\<close>: \<open>None\<close> is \<^verbatim>\<open>null\<close>.\<close>

datatype playback_kind = preview | full

type_synonym PlaybackType = "playback_kind option"

text \<open>The object \<^verbatim>\<open>playTrack\<close> resolves with; \<open>autoplayBlocked = None\<close> is the absent key.\<close>

record play_result =
  ptype :: PlaybackType
  track :: SpotifyTrack
  autoplayBlocked :: "bool option"

subsection \<open>Module state of player.ts and what it does to the page\<close>

text \<open>
  The shared audio element holds the attributes the code writes. The attributes the browser
  drives (\<^verbatim>\<open>paused\<close>, \<^verbatim>\<open>currentTime\<close>, \<^verbatim>\<open>duration\<close>) are given to the function that
  reads them. A listener is the event name, a handler identity (each subscription creates
  a new closure) and the callback it wraps.
\<close>

record audio =
  src :: string
  preload :: string
  loop :: bool
  muted :: bool
  el_volume :: real
  listeners :: "(string \<times> nat \<times> nat) list"

text \<open>Every call the module makes on the page, the element, the SDK and the network, in order.\<close>

datatype op =
    DomCreateAudio
  | DomAppendScript string
  | AudioSetSrc string
  | AudioSetLoop bool
  | AudioSetMuted bool
  | AudioSetVolume real
  | AudioSetCurrentTime real
  | AudioLoad
  | AudioPlay
  | AudioPause
  | AudioAddListener string
  | AudioRemoveListener string
  | SdkCreatePlayer string
  | SdkAddListener string
  | SdkConnect
  | SdkPause
  | SdkResume
  | SdkDisconnect
  | SdkActivateElement
  | NetGetTrack string string
  | NetPlayOnDevice string string string
  | NetPlayConnect string string

text \<open>
  \<open>spotifyPlayer\<close> holds the credential the player object was built with; \<open>windowSpotify\<close>
  is whether the global \<^verbatim>\<open>window.Spotify\<close> is defined; \<open>onSpotifyWebPlaybackSDKReady\<close> is
  the credential captured by the ready callback last installed; \<open>scripts\<close> counts the SDK
  script elements in the document; \<open>nextHandler\<close> numbers the closures created by
  \<^verbatim>\<open>onPreviewProgress\<close>; \<open>trace\<close> is the log of calls made so far.
\<close>

record player_state =
  audioElement :: "audio option"
  audioUnlocked :: bool
  keepAliveActive :: bool
  spotifyPlayer :: "string option"
  deviceId :: "string option"
  windowSpotify :: bool
  onSpotifyWebPlaybackSDKReady :: "string option"
  scripts :: nat
  nextHandler :: nat
  trace :: "op list"

definition initial_state :: player_state where
  "initial_state = \<lparr>audioElement = None, audioUnlocked = False, keepAliveActive = False,
     spotifyPlayer = None, deviceId = None, windowSpotify = False,
     onSpotifyWebPlaybackSDKReady = None, scripts = 0, nextHandler = 0, trace = []\<rparr>"

definition SILENT_AUDIO_SRC :: string where
  "SILENT_AUDIO_SRC =
     ''data:audio/wav;base64,UklGRigAAABXQVZFZm10IBIAAAABAAEARKwAAIhYAQACABAAAABkYXRhAgAAAAEA''"

definition emit :: "op \<Rightarrow> player_state \<Rightarrow> player_state" where
  "emit x s = s\<lparr>trace := trace s @ [x]\<rparr>"

text \<open>What a run from \<open>s\<close> to \<open>s'\<close> added to the log.\<close>

definition emitted :: "player_state \<Rightarrow> player_state \<Rightarrow> op list" where
  "emitted s s' = drop (length (trace s)) (trace s')"

subsection \<open>Strings\<close>

text \<open>JavaScript truthiness of \<^verbatim>\<open>string | null\<close>: \<^verbatim>\<open>null\<close> and the empty string are falsy.\<close>

fun truthy :: "string option \<Rightarrow> bool" where
  "truthy None = False"
| "truthy (Some v) = (v \<noteq> [])"

fun starts_with :: "string \<Rightarrow> string \<Rightarrow> bool" where
  "starts_with _ [] = True"
| "starts_with [] (_ # _) = False"
| "starts_with (c # cs) (d # ds) = (c = d \<and> starts_with cs ds)"

text \<open>\<^verbatim>\<open>String.prototype.includes\<close>, also the test of a regular expression of literals.\<close>

fun str_includes :: "string \<Rightarrow> string \<Rightarrow> bool" where
  "str_includes [] sub = (sub = [])"
| "str_includes (c # cs) sub = (starts_with (c # cs) sub \<or> str_includes cs sub)"

text \<open>\<^verbatim>\<open>toLowerCase\<close> on the ASCII letters.\<close>

definition lower_char :: "char \<Rightarrow> char" where
  "lower_char c =
     (case map_of (zip ''ABCDEFGHIJKLMNOPQRSTUVWXYZ'' ''abcdefghijklmnopqrstuvwxyz'') c of
        Some d \<Rightarrow> d
      | None \<Rightarrow> c)"

definition toLowerCase :: "string \<Rightarrow> string" where
  "toLowerCase cs = map lower_char cs"

section \<open>player.ts\<close>

subsection \<open>Error classification and platform detection\<close>

definition error_message :: "js_error \<Rightarrow> string" where
  "error_message e = (case e of
       DOMException _ m \<Rightarrow> m
     | Error m \<Rightarrow> m
     | AutoplayBlockedError \<Rightarrow> ''Autoplay was blocked''
     | NonError \<Rightarrow> [])"

definition isAutoplayBlockedError :: "js_error \<Rightarrow> bool" where
  "isAutoplayBlockedError e = (case e of
       DOMException n _ \<Rightarrow> n = ''NotAllowedError''
     | NonError \<Rightarrow> False
     | _ \<Rightarrow> (let message = toLowerCase (error_message e)
            in str_includes message ''notallowed'' \<or> str_includes message ''not allowed''
               \<or> str_includes message ''autoplay''))"

text \<open>\<^verbatim>\<open>navigator\<close>; \<open>None\<close> where the global is undefined, an empty \<open>userAgent\<close> where it is missing.\<close>

record navigator =
  userAgent :: string
  platform :: string
  maxTouchPoints :: nat

definition isIOSDevice :: "navigator option \<Rightarrow> bool" where
  "isIOSDevice nav = (case nav of
       None \<Rightarrow> False
     | Some n \<Rightarrow>
         (let ua = userAgent n;
              isIOS = (str_includes ua ''iPad'' \<or> str_includes ua ''iPhone'' \<or> str_includes ua ''iPod'');
              isIPadOS = (platform n = ''MacIntel'' \<and> maxTouchPoints n > 1)
          in isIOS \<or> isIPadOS))"

subsection \<open>The shared audio element\<close>

definition new_Audio :: audio where
  "new_Audio = \<lparr>src = [], preload = [], loop = False, muted = False, el_volume = 1, listeners = []\<rparr>"

definition ensureAudioElement :: "player_state \<Rightarrow> player_state" where
  "ensureAudioElement s = (case audioElement s of
       None \<Rightarrow> emit DomCreateAudio (s\<lparr>audioElement := Some (new_Audio\<lparr>preload := ''auto''\<rparr>)\<rparr>)
     | Some _ \<Rightarrow> s)"

text \<open>An attribute write or method call on the element, when there is one.\<close>

definition on_audio :: "op \<Rightarrow> (audio \<Rightarrow> audio) \<Rightarrow> player_state \<Rightarrow> player_state" where
  "on_audio x f s = (case audioElement s of
       None \<Rightarrow> s
     | Some a \<Rightarrow> emit x (s\<lparr>audioElement := Some (f a)\<rparr>))"

text \<open>
  The \<^verbatim>\<open>volume\<close> setter of a media element raises \<^verbatim>\<open>IndexSizeError\<close> for a value outside
  \<open>[0, 1]\<close> and keeps the old volume.
\<close>

definition set_volume :: "real \<Rightarrow> player_state \<Rightarrow> js_error option \<times> player_state" where
  "set_volume v s =
     (if 0 \<le> v \<and> v \<le> 1 then (None, on_audio (AudioSetVolume v) (\<lambda>a. a\<lparr>el_volume := v\<rparr>) s)
      else (Some (DOMException ''IndexSizeError'' ''volume out of range''),
            on_audio (AudioSetVolume v) (\<lambda>a. a) s))"

definition stopPreview :: "player_state \<Rightarrow> player_state" where
  "stopPreview s = (case audioElement s of
       None \<Rightarrow> s
     | Some _ \<Rightarrow> on_audio (AudioSetCurrentTime 0) (\<lambda>a. a) (on_audio AudioPause (\<lambda>a. a) s))"

definition pausePreview :: "player_state \<Rightarrow> player_state" where
  "pausePreview s = (case audioElement s of
       None \<Rightarrow> s
     | Some _ \<Rightarrow> on_audio AudioPause (\<lambda>a. a) s)"

text \<open>The promise of \<^verbatim>\<open>play()\<close> is only given a rejection logger.\<close>

definition resumePreview :: "player_state \<Rightarrow> player_state" where
  "resumePreview s = (case audioElement s of
       None \<Rightarrow> s
     | Some _ \<Rightarrow> on_audio AudioPlay (\<lambda>a. a) s)"

definition setPreviewVolume :: "real \<Rightarrow> player_state \<Rightarrow> js_error option \<times> player_state" where
  "setPreviewVolume volume s = (case audioElement s of
       None \<Rightarrow> (None, s)
     | Some _ \<Rightarrow> set_volume (volume / 100) s)"

text \<open>\<open>(currentTime, duration)\<close> are the element's readings, in seconds.\<close>

definition getPreviewProgress :: "real \<times> real \<Rightarrow> player_state \<Rightarrow> real \<times> real" where
  "getPreviewProgress reading s = (case audioElement s of
       Some _ \<Rightarrow> (fst reading * 1000, snd reading * 1000)
     | None \<Rightarrow> (0, 0))"

text \<open>\<open>paused\<close> is the element's reading of its \<^verbatim>\<open>paused\<close> attribute.\<close>

definition isPreviewPlaying :: "bool \<Rightarrow> player_state \<Rightarrow> bool" where
  "isPreviewPlaying paused s = (audioElement s \<noteq> None \<and> \<not> paused)"

text \<open>
  The disposer \<^verbatim>\<open>onPreviewProgress\<close> returns: the empty function, or the removal of one
  handler.
\<close>

datatype unsubscriber = Unsub_nothing | Unsub_handler nat nat

definition onPreviewProgress :: "nat \<Rightarrow> player_state \<Rightarrow> unsubscriber \<times> player_state" where
  "onPreviewProgress callback s = (case audioElement s of
       None \<Rightarrow> (Unsub_nothing, s)
     | Some _ \<Rightarrow>
         (let h = nextHandler s;
              s1 = on_audio (AudioAddListener ''timeupdate'')
                     (\<lambda>a. a\<lparr>listeners := listeners a @ [(''timeupdate'', h, callback)]\<rparr>)
                     (s\<lparr>nextHandler := Suc h\<rparr>)
          in (Unsub_handler h callback, s1)))"

fun unsubscribe :: "unsubscriber \<Rightarrow> player_state \<Rightarrow> player_state" where
  "unsubscribe Unsub_nothing s = s"
| "unsubscribe (Unsub_handler h callback) s = (case audioElement s of
       None \<Rightarrow> s
     | Some _ \<Rightarrow> on_audio (AudioRemoveListener ''timeupdate'')
                  (\<lambda>a. a\<lparr>listeners := removeAll (''timeupdate'', h, callback) (listeners a)\<rparr>) s)"

subsection \<open>Preview playback\<close>

text \<open>
  What the browser does with one \<^verbatim>\<open>play()\<close> followed by the start detection: how the
  promise of \<^verbatim>\<open>play()\<close> settles, the events the element fires inside the 300 ms window,
  in order (a \<^verbatim>\<open>pause\<close> event carries the value of \<^verbatim>\<open>element.paused\<close> its handler
  reads), and the value of \<^verbatim>\<open>element.paused\<close> when the timer fires.
\<close>

datatype start_event = Playing | TimeUpdate | Pause bool

record preview_env =
  play_settles :: "unit settled"
  start_events :: "start_event list"
  paused_at_timeout :: bool

text \<open>The first call of \<^verbatim>\<open>finish\<close> decides; the timer calls it last.\<close>

fun first_finish :: "start_event list \<Rightarrow> bool \<Rightarrow> bool" where
  "first_finish [] paused = (\<not> paused)"
| "first_finish (Playing # _) _ = True"
| "first_finish (TimeUpdate # _) _ = True"
| "first_finish (Pause p # evs) paused = (if p then False else first_finish evs paused)"

definition waitForPlaybackStart ::
  "start_event list \<Rightarrow> bool \<Rightarrow> player_state \<Rightarrow> bool \<times> player_state" where
  "waitForPlaybackStart evs paused s =
     (let s1 = on_audio (AudioAddListener ''playing'') (\<lambda>a. a) s;
          s2 = on_audio (AudioAddListener ''timeupdate'') (\<lambda>a. a) s1;
          s3 = on_audio (AudioAddListener ''pause'') (\<lambda>a. a) s2;
          started = first_finish evs paused;
          s4 = on_audio (AudioRemoveListener ''playing'') (\<lambda>a. a) s3;
          s5 = on_audio (AudioRemoveListener ''timeupdate'') (\<lambda>a. a) s4;
          s6 = on_audio (AudioRemoveListener ''pause'') (\<lambda>a. a) s5
      in (started, s6))"

text \<open>The \<^verbatim>\<open>try\<close> block of \<^verbatim>\<open>playPreview\<close>.\<close>

definition playPreview_try :: "preview_env \<Rightarrow> player_state \<Rightarrow> unit settled \<times> player_state" where
  "playPreview_try env s =
     (let s1 = on_audio AudioLoad (\<lambda>a. a) s;
          s2 = on_audio AudioPlay (\<lambda>a. a) s1
      in case play_settles env of
           Pending \<Rightarrow> (Pending, s2)
         | Rejected e \<Rightarrow> (Rejected e, s2)
         | Resolved _ \<Rightarrow>
             (case waitForPlaybackStart (start_events env) (paused_at_timeout env) s2 of
                (started, s3) \<Rightarrow>
                  if \<not> started then (Rejected AutoplayBlockedError, s3)
                  else (Resolved (), s3\<lparr>keepAliveActive := False\<rparr>)))"

definition playPreview ::
  "string \<Rightarrow> real \<Rightarrow> preview_env \<Rightarrow> player_state \<Rightarrow> unit settled \<times> player_state" where
  "playPreview previewUrl volume env s =
     (let s1 = (if \<not> keepAliveActive s then stopPreview s else s);
          s2 = ensureAudioElement s1;
          s3 = on_audio (AudioSetLoop False) (\<lambda>a. a\<lparr>loop := False\<rparr>) s2;
          s4 = on_audio (AudioSetMuted False) (\<lambda>a. a\<lparr>muted := False\<rparr>) s3;
          s5 = on_audio (AudioSetSrc previewUrl) (\<lambda>a. a\<lparr>src := previewUrl\<rparr>) s4;
          s6 = on_audio (AudioSetCurrentTime 0) (\<lambda>a. a) s5
      in case set_volume (volume / 100) s6 of
           (Some e, s7) \<Rightarrow> (Rejected e, s7)
         | (None, s7) \<Rightarrow>
             (case playPreview_try env s7 of
                (Rejected error, s8) \<Rightarrow>
                  (if isAutoplayBlockedError error then (Rejected AutoplayBlockedError, s8)
                   else (Rejected (Error ''Failed to play audio preview''), s8))
              | r \<Rightarrow> r))"

definition preparePreview :: "string \<Rightarrow> real \<Rightarrow> player_state \<Rightarrow> js_error option \<times> player_state" where
  "preparePreview previewUrl volume s =
     (let s1 = stopPreview s;
          s2 = ensureAudioElement s1;
          s3 = on_audio (AudioSetSrc previewUrl) (\<lambda>a. a\<lparr>src := previewUrl\<rparr>) s2;
          s4 = on_audio (AudioSetCurrentTime 0) (\<lambda>a. a) s3
      in case set_volume (volume / 100) s4 of
           (Some e, s5) \<Rightarrow> (Some e, s5)
         | (None, s5) \<Rightarrow> (None, on_audio AudioLoad (\<lambda>a. a) s5))"

subsection \<open>Unlock and keep-alive\<close>

text \<open>Both swallow every error; \<open>play\<close> is how the promise of \<^verbatim>\<open>play()\<close> settles.\<close>

definition unlockAudio :: "unit settled \<Rightarrow> player_state \<Rightarrow> unit settled \<times> player_state" where
  "unlockAudio play s =
     (if audioUnlocked s then (Resolved (), s)
      else
        (let s1 = ensureAudioElement s;
             s2 = on_audio (AudioSetSrc SILENT_AUDIO_SRC) (\<lambda>a. a\<lparr>src := SILENT_AUDIO_SRC\<rparr>) s1
         in case set_volume 0 s2 of
              (Some _, s3) \<Rightarrow> (Resolved (), s3)
            | (None, s3) \<Rightarrow>
                (let s4 = on_audio AudioPlay (\<lambda>a. a) s3
                 in case play of
                      Pending \<Rightarrow> (Pending, s4)
                    | Rejected _ \<Rightarrow> (Resolved (), s4)
                    | Resolved _ \<Rightarrow>
                        (let s5 = on_audio AudioPause (\<lambda>a. a) s4;
                             s6 = on_audio (AudioSetCurrentTime 0) (\<lambda>a. a) s5
                         in (Resolved (), s6\<lparr>audioUnlocked := True\<rparr>)))))"

definition startAutoplayKeepAlive :: "unit settled \<Rightarrow> player_state \<Rightarrow> unit settled \<times> player_state" where
  "startAutoplayKeepAlive play s =
     (if keepAliveActive s then (Resolved (), s)
      else
        (let s1 = ensureAudioElement s;
             s2 = on_audio (AudioSetSrc SILENT_AUDIO_SRC) (\<lambda>a. a\<lparr>src := SILENT_AUDIO_SRC\<rparr>) s1;
             s3 = on_audio (AudioSetLoop True) (\<lambda>a. a\<lparr>loop := True\<rparr>) s2;
             s4 = on_audio (AudioSetMuted True) (\<lambda>a. a\<lparr>muted := True\<rparr>) s3
         in case set_volume 0 s4 of
              (Some _, s5) \<Rightarrow> (Resolved (), s5)
            | (None, s5) \<Rightarrow>
                (let s6 = on_audio AudioPlay (\<lambda>a. a) s5
                 in case play of
                      Pending \<Rightarrow> (Pending, s6)
                    | Rejected _ \<Rightarrow> (Resolved (), s6)
                    | Resolved _ \<Rightarrow>
                        (Resolved (), s6\<lparr>keepAliveActive := True, audioUnlocked := True\<rparr>))))"

definition stopAutoplayKeepAlive :: "player_state \<Rightarrow> player_state" where
  "stopAutoplayKeepAlive s =
     (if \<not> keepAliveActive s then s
      else
        (let s1 = s\<lparr>keepAliveActive := False\<rparr>
         in case audioElement s1 of
              None \<Rightarrow> s1
            | Some _ \<Rightarrow>
                (let s2 = on_audio (AudioSetLoop False) (\<lambda>a. a\<lparr>loop := False\<rparr>) s1;
                     s3 = on_audio (AudioSetMuted False) (\<lambda>a. a\<lparr>muted := False\<rparr>) s2;
                     s4 = on_audio AudioPause (\<lambda>a. a) s3
                 in on_audio (AudioSetCurrentTime 0) (\<lambda>a. a) s4)))"

subsection \<open>The Web Playback SDK session\<close>

text \<open>
  The first event of the player object that settles the promise of
  \<^verbatim>\<open>initializeSpotifyPlayer\<close>, or \<open>Silent\<close> when none does. \<^verbatim>\<open>playback_error\<close> and
  \<^verbatim>\<open>not_ready\<close> only log. Events after the promise has settled are outside the call.
\<close>

datatype sdk_event =
    Ready string
  | InitializationError string
  | AuthenticationError string
  | AccountError string
  | Silent

text \<open>
  \<open>script_loads\<close>: the appended script runs and calls \<^verbatim>\<open>onSpotifyWebPlaybackSDKReady\<close>
  before the 10 s timer; the vendor script defines \<^verbatim>\<open>window.Spotify\<close> before it does so.
\<close>

record sdk_env =
  script_loads :: bool
  player_event :: sdk_event

definition sdk_listeners :: "string list" where
  "sdk_listeners = [''initialization_error'', ''authentication_error'', ''account_error'',
     ''playback_error'', ''ready'', ''not_ready'']"

text \<open>\<open>Pending\<close>: neither \<^verbatim>\<open>resolve\<close> nor \<^verbatim>\<open>reject\<close> was called.\<close>

definition createPlayer :: "string \<Rightarrow> sdk_event \<Rightarrow> player_state \<Rightarrow> string settled \<times> player_state" where
  "createPlayer accessToken ev s =
     (let s1 = emit (SdkCreatePlayer accessToken) (s\<lparr>spotifyPlayer := Some accessToken\<rparr>);
          s2 = foldl (\<lambda>t n. emit (SdkAddListener n) t) s1 sdk_listeners;
          s3 = emit SdkConnect s2
      in case ev of
           Ready device_id \<Rightarrow> (Resolved device_id, s3\<lparr>deviceId := Some device_id\<rparr>)
         | InitializationError message \<Rightarrow>
             (Rejected (Error (''Initialization error: '' @ message)), s3)
         | AuthenticationError message \<Rightarrow>
             (Rejected (Error (''Authentication error: '' @ message)), s3)
         | AccountError message \<Rightarrow>
             (Rejected (Error (''Account error: '' @ message @ ''. Spotify Premium required.'')), s3)
         | Silent \<Rightarrow> (Pending, s3))"

definition initializeSpotifyPlayer ::
  "string \<Rightarrow> sdk_env \<Rightarrow> player_state \<Rightarrow> string settled \<times> player_state" where
  "initializeSpotifyPlayer accessToken env s =
     (if windowSpotify s then createPlayer accessToken (player_event env) s
      else
        (let s1 = emit (DomAppendScript ''https://sdk.scdn.co/spotify-player.js'')
                    (s\<lparr>scripts := Suc (scripts s),
                       onSpotifyWebPlaybackSDKReady := Some accessToken\<rparr>)
         in if script_loads env then
              (case createPlayer accessToken (player_event env) (s1\<lparr>windowSpotify := True\<rparr>) of
                 (Pending, s2) \<Rightarrow> (Rejected (Error ''Spotify Player SDK failed to load''), s2)
               | r \<Rightarrow> r)
            else (Rejected (Error ''Spotify Player SDK failed to load''), s1)))"

text \<open>\<open>has_activateElement\<close>: \<^verbatim>\<open>typeof spotifyPlayer.activateElement === 'function'\<close>.\<close>

definition activateSDKElement :: "bool \<Rightarrow> player_state \<Rightarrow> player_state" where
  "activateSDKElement has_activateElement s =
     (if spotifyPlayer s \<noteq> None \<and> has_activateElement then emit SdkActivateElement s else s)"

subsection \<open>Network calls\<close>

text \<open>
  A \<^verbatim>\<open>fetch\<close> rejects, or resolves with a response whose \<^verbatim>\<open>json()\<close> rejects or gives
  a value. For a track request the value is the track; for a play command it is
  \<^verbatim>\<open>error.error?.message\<close> of the parsed body.
\<close>

record response =
  ok :: bool
  status :: nat
  statusText :: string

datatype 'a json = JsonRejects js_error | Json 'a

datatype 'a fetched = FetchRejects js_error | Response response "'a json"

text \<open>\<^verbatim>\<open>m || d\<close> on an optional string.\<close>

definition or_default :: "string option \<Rightarrow> string \<Rightarrow> string" where
  "or_default m d = (case m of None \<Rightarrow> d | Some v \<Rightarrow> if v = [] then d else v)"

text \<open>\<^verbatim>\<open>getTrack\<close> of api.ts.\<close>

definition getTrack ::
  "string \<Rightarrow> string \<Rightarrow> SpotifyTrack fetched \<Rightarrow> player_state \<Rightarrow> SpotifyTrack settled \<times> player_state" where
  "getTrack trackId accessToken f s =
     (let s1 = emit (NetGetTrack trackId accessToken) s
      in case f of
           FetchRejects e \<Rightarrow> (Rejected e, s1)
         | Response r body \<Rightarrow>
             if \<not> ok r then
               (if status r = 404 then (Rejected (Error ''Track not found''), s1)
                else if status r = 401 then (Rejected (Error ''Authentication required''), s1)
                else (Rejected (Error (''Failed to fetch track: '' @ statusText r)), s1))
             else (case body of
                     JsonRejects e \<Rightarrow> (Rejected e, s1)
                   | Json data \<Rightarrow> (Resolved data, s1)))"

definition playWithSDK ::
  "string \<Rightarrow> string \<Rightarrow> string option fetched \<Rightarrow> player_state \<Rightarrow> unit settled \<times> player_state" where
  "playWithSDK trackUri accessToken f s =
     (case deviceId s of
        None \<Rightarrow> (Rejected (Error ''Spotify player not initialized''), s)
      | Some d \<Rightarrow>
          if d = [] then (Rejected (Error ''Spotify player not initialized''), s)
          else
            (let s1 = emit (NetPlayOnDevice d trackUri accessToken) s
             in case f of
                  FetchRejects e \<Rightarrow> (Rejected e, s1)
                | Response r body \<Rightarrow>
                    if \<not> ok r then
                      (case body of
                         JsonRejects e \<Rightarrow> (Rejected e, s1)
                       | Json m \<Rightarrow>
                           (Rejected (Error (or_default m ''Failed to play track with SDK'')), s1))
                    else (Resolved (), s1)))"

definition playWithConnectAPI ::
  "string \<Rightarrow> string \<Rightarrow> string option fetched \<Rightarrow> player_state \<Rightarrow> unit settled \<times> player_state" where
  "playWithConnectAPI trackUri accessToken f s =
     (let s1 = emit (NetPlayConnect trackUri accessToken) s
      in case f of
           FetchRejects e \<Rightarrow> (Rejected e, s1)
         | Response r body \<Rightarrow>
             if \<not> ok r then
               (case body of
                  JsonRejects _ \<Rightarrow> (Rejected (Error ''No active Spotify device found''), s1)
                | Json m \<Rightarrow> (Rejected (Error (or_default m ''No active Spotify device found'')), s1))
             else (Resolved (), s1))"

subsection \<open>The orchestrator\<close>

text \<open>Everything the environment decides during one \<^verbatim>\<open>playTrack\<close>.\<close>

record play_env =
  nav :: "navigator option"
  track_response :: "SpotifyTrack fetched"
  sdk :: sdk_env
  sdk_play_response :: "string option fetched"
  preview_run :: preview_env
  connect_response :: "string option fetched"

text \<open>Strategy 1, the \<^verbatim>\<open>try\<close> block: initialise the SDK unless a device id is cached, then play.\<close>

definition playTrack_sdk ::
  "string \<Rightarrow> string \<Rightarrow> play_env \<Rightarrow> player_state \<Rightarrow> unit settled \<times> player_state" where
  "playTrack_sdk trackUri accessToken env s =
     (if \<not> truthy (deviceId s) then
        (case initializeSpotifyPlayer accessToken (sdk env) s of
           (Resolved _, s1) \<Rightarrow> playWithSDK trackUri accessToken (sdk_play_response env) s1
         | (Rejected e, s1) \<Rightarrow> (Rejected e, s1)
         | (Pending, s1) \<Rightarrow> (Pending, s1))
      else playWithSDK trackUri accessToken (sdk_play_response env) s)"

text \<open>Strategy 3 and the terminal error.\<close>

definition playTrack_connect ::
  "SpotifyTrack \<Rightarrow> string \<Rightarrow> string \<Rightarrow> play_env \<Rightarrow> player_state
     \<Rightarrow> play_result settled \<times> player_state" where
  "playTrack_connect t trackUri accessToken env s =
     (case playWithConnectAPI trackUri accessToken (connect_response env) s of
        (Resolved _, s1) \<Rightarrow> (Resolved \<lparr>ptype = Some full, track = t, autoplayBlocked = None\<rparr>, s1)
      | (Pending, s1) \<Rightarrow> (Pending, s1)
      | (Rejected _, s1) \<Rightarrow>
          (Rejected (Error
             ''Could not play track. Please open Spotify on a device and try again.''), s1))"

text \<open>Strategy 2, falling through to strategy 3: the code after the SDK block.\<close>

definition playTrack_preview ::
  "SpotifyTrack \<Rightarrow> string \<Rightarrow> string \<Rightarrow> real \<Rightarrow> play_env \<Rightarrow> player_state
     \<Rightarrow> play_result settled \<times> player_state" where
  "playTrack_preview t trackUri accessToken volume env s =
     (case preview_url t of
        None \<Rightarrow> playTrack_connect t trackUri accessToken env s
      | Some url \<Rightarrow>
          if url = [] then playTrack_connect t trackUri accessToken env s
          else
            (case playPreview url volume (preview_run env) s of
               (Resolved _, s1) \<Rightarrow>
                 (Resolved \<lparr>ptype = Some preview, track = t, autoplayBlocked = None\<rparr>, s1)
             | (Pending, s1) \<Rightarrow> (Pending, s1)
             | (Rejected error, s1) \<Rightarrow>
                 if error = AutoplayBlockedError then
                   (Resolved \<lparr>ptype = Some preview, track = t, autoplayBlocked = Some True\<rparr>, s1)
                 else playTrack_connect t trackUri accessToken env s1))"

definition playTrack ::
  "string \<Rightarrow> string option \<Rightarrow> real \<Rightarrow> play_env \<Rightarrow> player_state
     \<Rightarrow> play_result settled \<times> player_state" where
  "playTrack trackId accessToken volume env s =
     (case accessToken of
        None \<Rightarrow> (Rejected (Error ''Please log in with Spotify to play tracks.''), s)
      | Some tok \<Rightarrow>
          if tok = [] then (Rejected (Error ''Please log in with Spotify to play tracks.''), s)
          else
            (case getTrack trackId tok (track_response env) s of
               (Rejected _, s1) \<Rightarrow> (Rejected (Error ''Failed to fetch track details''), s1)
             | (Pending, s1) \<Rightarrow> (Pending, s1)
             | (Resolved t, s1) \<Rightarrow>
                 (let trackUri = ''spotify:track:'' @ trackId
                  in if \<not> isIOSDevice (nav env) then
                       (case playTrack_sdk trackUri tok env s1 of
                          (Resolved _, s2) \<Rightarrow>
                            (Resolved \<lparr>ptype = Some full, track = t, autoplayBlocked = None\<rparr>, s2)
                        | (Pending, s2) \<Rightarrow> (Pending, s2)
                        | (Rejected _, s2) \<Rightarrow> playTrack_preview t trackUri tok volume env s2)
                     else playTrack_preview t trackUri tok volume env s1)))"

definition loadTrack ::
  "string \<Rightarrow> string option \<Rightarrow> real \<Rightarrow> SpotifyTrack fetched \<Rightarrow> player_state
     \<Rightarrow> play_result settled \<times> player_state" where
  "loadTrack trackId accessToken volume f s =
     (case accessToken of
        None \<Rightarrow> (Rejected (Error ''Please log in with Spotify to play tracks.''), s)
      | Some tok \<Rightarrow>
          if tok = [] then (Rejected (Error ''Please log in with Spotify to play tracks.''), s)
          else
            (case getTrack trackId tok f s of
               (Rejected e, s1) \<Rightarrow> (Rejected e, s1)
             | (Pending, s1) \<Rightarrow> (Pending, s1)
             | (Resolved t, s1) \<Rightarrow>
                 (case (if truthy (preview_url t) then preview_url t else None) of
                    Some url \<Rightarrow>
                      (case preparePreview url volume s1 of
                         (Some e, s2) \<Rightarrow> (Rejected e, s2)
                       | (None, s2) \<Rightarrow>
                           (Resolved \<lparr>ptype = Some preview, track = t, autoplayBlocked = None\<rparr>,
                            s2))
                  | None \<Rightarrow>
                      (Rejected (Error
                         ''This track has no preview available. Please log in for full playback.''),
                       s1))))"

subsection \<open>Pause, resume, stop, disconnect\<close>

text \<open>\<open>sdk_settles\<close>: how the promise of the SDK player's method settles.\<close>

definition pause :: "unit settled \<Rightarrow> player_state \<Rightarrow> unit settled \<times> player_state" where
  "pause sdk_settles s =
     (if spotifyPlayer s \<noteq> None then (sdk_settles, emit SdkPause s)
      else (Resolved (), pausePreview s))"

definition resume :: "unit settled \<Rightarrow> player_state \<Rightarrow> unit settled \<times> player_state" where
  "resume sdk_settles s =
     (if spotifyPlayer s \<noteq> None then (sdk_settles, emit SdkResume s)
      else (Resolved (), resumePreview s))"

definition stopPlayback :: "player_state \<Rightarrow> player_state" where
  "stopPlayback s =
     (let s1 = stopPreview s
      in if spotifyPlayer s1 \<noteq> None then emit SdkPause s1 else s1)"

definition disconnectPlayer :: "player_state \<Rightarrow> player_state" where
  "disconnectPlayer s =
     (let s1 = (if spotifyPlayer s \<noteq> None
                then (emit SdkDisconnect s)\<lparr>spotifyPlayer := None, deviceId := None\<rparr>
                else s)
      in stopPreview s1)"

subsection \<open>Calls of the module\<close>

text \<open>
  One call of an exported function of player.ts (or of a disposer it returned), with what
  the environment decides during it. Calls run one after the other.
\<close>

datatype call =
    Call_initializeSpotifyPlayer string sdk_env
  | Call_playWithSDK string string "string option fetched"
  | Call_playPreview string real preview_env
  | Call_preparePreview string real
  | Call_unlockAudio "unit settled"
  | Call_startAutoplayKeepAlive "unit settled"
  | Call_activateSDKElement bool
  | Call_stopAutoplayKeepAlive
  | Call_stopPreview
  | Call_pausePreview
  | Call_resumePreview
  | Call_setPreviewVolume real
  | Call_getPreviewProgress "real \<times> real"
  | Call_isPreviewPlaying bool
  | Call_onPreviewProgress nat
  | Call_unsubscribe unsubscriber
  | Call_playTrack string "string option" real play_env
  | Call_loadTrack string "string option" real "SpotifyTrack fetched"
  | Call_pause "unit settled"
  | Call_resume "unit settled"
  | Call_stopPlayback
  | Call_disconnectPlayer

fun exec :: "call \<Rightarrow> player_state \<Rightarrow> player_state" where
  "exec (Call_initializeSpotifyPlayer tok env) s = snd (initializeSpotifyPlayer tok env s)"
| "exec (Call_playWithSDK u tok f) s = snd (playWithSDK u tok f s)"
| "exec (Call_playPreview url v env) s = snd (playPreview url v env s)"
| "exec (Call_preparePreview url v) s = snd (preparePreview url v s)"
| "exec (Call_unlockAudio p) s = snd (unlockAudio p s)"
| "exec (Call_startAutoplayKeepAlive p) s = snd (startAutoplayKeepAlive p s)"
| "exec (Call_activateSDKElement b) s = activateSDKElement b s"
| "exec Call_stopAutoplayKeepAlive s = stopAutoplayKeepAlive s"
| "exec Call_stopPreview s = stopPreview s"
| "exec Call_pausePreview s = pausePreview s"
| "exec Call_resumePreview s = resumePreview s"
| "exec (Call_setPreviewVolume v) s = snd (setPreviewVolume v s)"
| "exec (Call_getPreviewProgress _) s = s"
| "exec (Call_isPreviewPlaying _) s = s"
| "exec (Call_onPreviewProgress cb) s = snd (onPreviewProgress cb s)"
| "exec (Call_unsubscribe u) s = unsubscribe u s"
| "exec (Call_playTrack tid tok v env) s = snd (playTrack tid tok v env s)"
| "exec (Call_loadTrack tid tok v f) s = snd (loadTrack tid tok v f s)"
| "exec (Call_pause p) s = snd (pause p s)"
| "exec (Call_resume p) s = snd (resume p s)"
| "exec Call_stopPlayback s = stopPlayback s"
| "exec Call_disconnectPlayer s = disconnectPlayer s"

fun run :: "call list \<Rightarrow> player_state \<Rightarrow> player_state" where
  "run [] s = s"
| "run (c # cs) s = run cs (exec c s)"

section \<open>The player store and the hook\<close>

text \<open>The state of \<^verbatim>\<open>usePlayerStore\<close> and its actions.\<close>

record PlayerState =
  currentTrack :: "SpotifyTrack option"
  isPlaying :: bool
  playbackType :: PlaybackType
  progress :: real
  volume :: real
  error :: "string option"
  isLoading :: bool

definition initial_store :: PlayerState where
  "initial_store = \<lparr>currentTrack = None, isPlaying = False, playbackType = None, progress = 0,
     volume = 80, error = None, isLoading = False\<rparr>"

definition setCurrentTrack :: "SpotifyTrack \<Rightarrow> PlayerState \<Rightarrow> PlayerState" where
  "setCurrentTrack t st = st\<lparr>currentTrack := Some t, progress := 0, error := None\<rparr>"

definition setIsPlaying :: "bool \<Rightarrow> PlayerState \<Rightarrow> PlayerState" where
  "setIsPlaying playing st = st\<lparr>isPlaying := playing\<rparr>"

definition setPlaybackType :: "PlaybackType \<Rightarrow> PlayerState \<Rightarrow> PlayerState" where
  "setPlaybackType ty st = st\<lparr>playbackType := ty\<rparr>"

definition setProgress :: "real \<Rightarrow> PlayerState \<Rightarrow> PlayerState" where
  "setProgress p st = st\<lparr>progress := p\<rparr>"

definition setVolume :: "real \<Rightarrow> PlayerState \<Rightarrow> PlayerState" where
  "setVolume v st = (let clampedVolume = max 0 (min 100 v) in st\<lparr>volume := clampedVolume\<rparr>)"

definition setError :: "string option \<Rightarrow> PlayerState \<Rightarrow> PlayerState" where
  "setError e st = st\<lparr>error := e, isLoading := False\<rparr>"

definition setIsLoading :: "bool \<Rightarrow> PlayerState \<Rightarrow> PlayerState" where
  "setIsLoading loading st = st\<lparr>isLoading := loading\<rparr>"

definition clearError :: "PlayerState \<Rightarrow> PlayerState" where
  "clearError st = st\<lparr>error := None\<rparr>"

definition reset :: "PlayerState \<Rightarrow> PlayerState" where
  "reset st = st\<lparr>currentTrack := None, isPlaying := False, playbackType := None, progress := 0,
     error := None, isLoading := False\<rparr>"

text \<open>The hook \<^verbatim>\<open>useSpotifyPlayer\<close> works on the store and on the module state.\<close>

record app =
  store :: PlayerState
  player :: player_state

definition stop :: "app \<Rightarrow> app" where
  "stop a = (let p1 = stopPlayback (player a) in \<lparr>store = reset (store a), player = p1\<rparr>)"

text \<open>The store is set first; an exception of the engine leaves the callback after that.\<close>

definition changeVolume :: "real \<Rightarrow> app \<Rightarrow> js_error option \<times> app" where
  "changeVolume newVolume a =
     (let st1 = setVolume newVolume (store a)
      in case setPreviewVolume newVolume (player a) of
           (r, p1) \<Rightarrow> (r, \<lparr>store = st1, player = p1\<rparr>))"

section \<open>Notions used by the properties\<close>

text \<open>The calls that belong to the SDK strategy: loading the script, building and driving
  the player object, and the play command addressed to the in-page device.\<close>

fun is_sdk_op :: "op \<Rightarrow> bool" where
  "is_sdk_op (DomAppendScript _) = True"
| "is_sdk_op (SdkCreatePlayer _) = True"
| "is_sdk_op (SdkAddListener _) = True"
| "is_sdk_op SdkConnect = True"
| "is_sdk_op SdkPause = True"
| "is_sdk_op SdkResume = True"
| "is_sdk_op SdkDisconnect = True"
| "is_sdk_op SdkActivateElement = True"
| "is_sdk_op (NetPlayOnDevice _ _ _) = True"
| "is_sdk_op _ = False"

text \<open>From \<open>s\<close> to \<open>s'\<close> the log only grew, by calls outside the SDK strategy, and the SDK
  session is as it was.\<close>

definition sdk_untouched :: "player_state \<Rightarrow> player_state \<Rightarrow> bool" where
  "sdk_untouched s s' =
     ((\<exists>xs. trace s' = trace s @ xs \<and> list_all (\<lambda>x. \<not> is_sdk_op x) xs)
      \<and> scripts s' = scripts s \<and> spotifyPlayer s' = spotifyPlayer s
      \<and> deviceId s' = deviceId s \<and> windowSpotify s' = windowSpotify s)"

text \<open>The start-detection window runs to its timer with no deciding event, and the element
  reads as paused then.\<close>

definition window_elapses_paused :: "preview_env \<Rightarrow> bool" where
  "window_elapses_paused env =
     (list_all (\<lambda>e. e = Pause False) (start_events env) \<and> paused_at_timeout env)"

text \<open>A request that does not end in a success response.\<close>

definition request_fails :: "'a fetched \<Rightarrow> bool" where
  "request_fails f = (case f of FetchRejects _ \<Rightarrow> True | Response r _ \<Rightarrow> \<not> ok r)"

text \<open>From \<open>s\<close> to \<open>s'\<close> the unlocked flag is unchanged and keep-alive was not switched on.\<close>

definition keeps_flags :: "player_state \<Rightarrow> player_state \<Rightarrow> bool" where
  "keeps_flags s s' =
     (audioUnlocked s' = audioUnlocked s \<and> (keepAliveActive s' \<longrightarrow> keepAliveActive s))"

text \<open>From \<open>s\<close> to \<open>s'\<close> the unlocked flag was not cleared, and keep-alive was switched on
  only together with it.\<close>

definition flags_step :: "player_state \<Rightarrow> player_state \<Rightarrow> bool" where
  "flags_step s s' =
     ((audioUnlocked s \<longrightarrow> audioUnlocked s')
      \<and> (keepAliveActive s' \<longrightarrow> keepAliveActive s \<or> audioUnlocked s'))"

subsection \<open>Sample inputs\<close>

definition iphone :: "navigator option" where
  "iphone = Some \<lparr>userAgent = ''Mozilla/5.0 (iPhone; CPU iPhone OS 17_0 like Mac OS X)'',
     platform = ''iPhone'', maxTouchPoints = 5\<rparr>"

definition sample_track :: "string option \<Rightarrow> SpotifyTrack" where
  "sample_track p = \<lparr>track_id = ''11dFghVXANMlKmJXsNCbNl'', name = ''Cut To The Feeling'',
     artists = [(''6sFIWsNpZYqfjUpaCgueju'', ''Carly Rae Jepsen'')],
     album = \<lparr>album_id = ''0tGPJ0bkWOUmH7MEOR77qc'', album_name = ''Cut To The Feeling'',
               images = [(''https://i.scdn.co/image/ab67616d'', 640, 640)]\<rparr>,
     duration_ms = 207959, preview_url = p, uri = ''spotify:track:11dFghVXANMlKmJXsNCbNl'',
     external_urls_spotify = ''https://open.spotify.com/track/11dFghVXANMlKmJXsNCbNl''\<rparr>"

definition sample_env :: "string option \<Rightarrow> play_env" where
  "sample_env p = \<lparr>nav = iphone,
     track_response = Response \<lparr>ok = True, status = 200, statusText = ''OK''\<rparr> (Json (sample_track p)),
     sdk = \<lparr>script_loads = False, player_event = Silent\<rparr>,
     sdk_play_response = FetchRejects (Error ''Failed to fetch''),
     preview_run = \<lparr>play_settles = Resolved (), start_events = [], paused_at_timeout = True\<rparr>,
     connect_response = Response \<lparr>ok = False, status = 404, statusText = ''Not Found''\<rparr>
                          (Json (Some ''No active device found''))\<rparr>"

section \<open>Properties\<close>

subsection \<open>Bookkeeping of the element, the flags and the log\<close>

lemma audioElement_emit [simp]: "audioElement (emit x s) = audioElement s"
  by (simp add: emit_def)

lemma trace_emit [simp]: "trace (emit x s) = trace s @ [x]"
  by (simp add: emit_def)

lemma audioElement_on_audio [simp]:
  "audioElement (on_audio x f s) = map_option f (audioElement s)"
  by (simp add: on_audio_def split: option.splits)

lemma trace_on_audio [simp]:
  "trace (on_audio x f s) = (if audioElement s = None then trace s else trace s @ [x])"
  by (simp add: on_audio_def split: option.splits)

lemma emitted_append [simp]: "trace s' = trace s @ xs \<Longrightarrow> emitted s s' = xs"
  by (simp add: emitted_def)

lemma emitted_same [simp]: "emitted s s = []"
  by (simp add: emitted_def)

lemma flags_emit [simp]:
  "audioUnlocked (emit x s) = audioUnlocked s" "keepAliveActive (emit x s) = keepAliveActive s"
  "scripts (emit x s) = scripts s" "spotifyPlayer (emit x s) = spotifyPlayer s"
  "deviceId (emit x s) = deviceId s" "windowSpotify (emit x s) = windowSpotify s"
  by (simp_all add: emit_def)

lemma flags_on_audio [simp]:
  "audioUnlocked (on_audio x f s) = audioUnlocked s" "keepAliveActive (on_audio x f s) = keepAliveActive s"
  "scripts (on_audio x f s) = scripts s" "spotifyPlayer (on_audio x f s) = spotifyPlayer s"
  "deviceId (on_audio x f s) = deviceId s" "windowSpotify (on_audio x f s) = windowSpotify s"
  by (simp_all add: on_audio_def split: option.splits)

lemma flags_ensureAudioElement [simp]:
  "audioUnlocked (ensureAudioElement s) = audioUnlocked s" "keepAliveActive (ensureAudioElement s) = keepAliveActive s"
  "scripts (ensureAudioElement s) = scripts s" "spotifyPlayer (ensureAudioElement s) = spotifyPlayer s"
  "deviceId (ensureAudioElement s) = deviceId s" "windowSpotify (ensureAudioElement s) = windowSpotify s"
  by (simp_all add: ensureAudioElement_def split: option.splits)

lemma audioElement_ensure [simp]: "audioElement (ensureAudioElement s) \<noteq> None"
  by (simp add: ensureAudioElement_def split: option.splits)

lemma trace_ensure [simp]:
  "trace (ensureAudioElement s) = (if audioElement s = None then trace s @ [DomCreateAudio] else trace s)"
  by (auto simp add: ensureAudioElement_def split: option.splits)

lemma trace_stopPreview [simp]:
  "trace (stopPreview s) = (if audioElement s = None then trace s else trace s @ [AudioPause, AudioSetCurrentTime 0])"
  by (auto simp add: stopPreview_def split: option.splits)

lemma audioElement_stopPreview [simp]: "audioElement (stopPreview s) = audioElement s"
  by (auto simp add: stopPreview_def option.map_ident split: option.splits)

lemma flags_stopPreview [simp]:
  "audioUnlocked (stopPreview s) = audioUnlocked s" "keepAliveActive (stopPreview s) = keepAliveActive s"
  "scripts (stopPreview s) = scripts s" "spotifyPlayer (stopPreview s) = spotifyPlayer s"
  "deviceId (stopPreview s) = deviceId s" "windowSpotify (stopPreview s) = windowSpotify s"
  by (simp_all add: stopPreview_def split: option.splits)

lemma trace_set_volume [simp]:
  "trace (snd (set_volume v s)) = (if audioElement s = None then trace s else trace s @ [AudioSetVolume v])"
  by (simp add: set_volume_def)

lemma fst_set_volume [simp]:
  "fst (set_volume v s) = (if 0 \<le> v \<and> v \<le> 1 then None else Some (DOMException ''IndexSizeError'' ''volume out of range''))"
  by (simp add: set_volume_def)

lemma audioElement_set_volume [simp]:
  "(audioElement (snd (set_volume v s)) = None) = (audioElement s = None)"
  by (simp add: set_volume_def)

lemma flags_set_volume [simp]:
  "audioUnlocked (snd (set_volume v s)) = audioUnlocked s" "keepAliveActive (snd (set_volume v s)) = keepAliveActive s"
  "scripts (snd (set_volume v s)) = scripts s" "spotifyPlayer (snd (set_volume v s)) = spotifyPlayer s"
  "deviceId (snd (set_volume v s)) = deviceId s" "windowSpotify (snd (set_volume v s)) = windowSpotify s"
  by (simp_all add: set_volume_def)

lemma trace_wait [simp]:
  "trace (snd (waitForPlaybackStart evs p s)) =
    (if audioElement s = None then trace s else trace s @ [AudioAddListener ''playing'', AudioAddListener ''timeupdate'',
      AudioAddListener ''pause'', AudioRemoveListener ''playing'', AudioRemoveListener ''timeupdate'', AudioRemoveListener ''pause''])"
  by (simp add: waitForPlaybackStart_def Let_def)

lemma fst_wait [simp]: "fst (waitForPlaybackStart evs p s) = first_finish evs p"
  by (simp add: waitForPlaybackStart_def Let_def)

lemma flags_wait [simp]:
  "audioUnlocked (snd (waitForPlaybackStart evs p s)) = audioUnlocked s" "keepAliveActive (snd (waitForPlaybackStart evs p s)) = keepAliveActive s"
  "scripts (snd (waitForPlaybackStart evs p s)) = scripts s" "spotifyPlayer (snd (waitForPlaybackStart evs p s)) = spotifyPlayer s"
  "deviceId (snd (waitForPlaybackStart evs p s)) = deviceId s" "windowSpotify (snd (waitForPlaybackStart evs p s)) = windowSpotify s"
  by (simp_all add: waitForPlaybackStart_def Let_def)

lemma trace_playPreview_try:
  "trace (snd (playPreview_try env s)) =
     (if audioElement s = None then trace s
      else trace s @ [AudioLoad, AudioPlay] @
        (if play_settles env = Resolved () then [AudioAddListener ''playing'', AudioAddListener ''timeupdate'',
      AudioAddListener ''pause'', AudioRemoveListener ''playing'', AudioRemoveListener ''timeupdate'', AudioRemoveListener ''pause''] else []))"
  by (cases "play_settles env") (simp_all add: playPreview_try_def Let_def split_beta)

lemma trace_playPreview:
  "trace (snd (playPreview url vol env s)) = trace s
     @ (if keepAliveActive s \<or> audioElement s = None then [] else [AudioPause, AudioSetCurrentTime 0])
     @ (if audioElement s = None then [DomCreateAudio] else [])
     @ [AudioSetLoop False, AudioSetMuted False, AudioSetSrc url, AudioSetCurrentTime 0, AudioSetVolume (vol / 100)]
     @ (if 0 \<le> vol \<and> vol \<le> 100
        then [AudioLoad, AudioPlay] @
          (if play_settles env = Resolved () then [AudioAddListener ''playing'', AudioAddListener ''timeupdate'',
            AudioAddListener ''pause'', AudioRemoveListener ''playing'', AudioRemoveListener ''timeupdate'',
            AudioRemoveListener ''pause''] else [])
        else [])"
  by (simp add: playPreview_def Let_def split_beta trace_playPreview_try split: prod.splits option.splits settled.splits)

lemma flags_playPreview_try [simp]:
  "scripts (snd (playPreview_try env s)) = scripts s" "spotifyPlayer (snd (playPreview_try env s)) = spotifyPlayer s"
  "deviceId (snd (playPreview_try env s)) = deviceId s" "windowSpotify (snd (playPreview_try env s)) = windowSpotify s"
  "audioUnlocked (snd (playPreview_try env s)) = audioUnlocked s"
  by (cases "play_settles env"; simp add: playPreview_try_def Let_def split_beta)+

lemma flags_playPreview [simp]:
  "scripts (snd (playPreview url vol env s)) = scripts s" "spotifyPlayer (snd (playPreview url vol env s)) = spotifyPlayer s"
  "deviceId (snd (playPreview url vol env s)) = deviceId s" "windowSpotify (snd (playPreview url vol env s)) = windowSpotify s"
  "audioUnlocked (snd (playPreview url vol env s)) = audioUnlocked s"
  by (simp_all add: playPreview_def Let_def split_beta split: prod.splits option.splits settled.splits)

lemma flags_listeners [simp]:
  "audioUnlocked (foldl (\<lambda>t n. emit (SdkAddListener n) t) s ns) = audioUnlocked s"
  "keepAliveActive (foldl (\<lambda>t n. emit (SdkAddListener n) t) s ns) = keepAliveActive s"
  "scripts (foldl (\<lambda>t n. emit (SdkAddListener n) t) s ns) = scripts s"
  "windowSpotify (foldl (\<lambda>t n. emit (SdkAddListener n) t) s ns) = windowSpotify s"
  by (induction ns arbitrary: s) simp_all

lemma flags_createPlayer [simp]:
  "audioUnlocked (snd (createPlayer tok ev s)) = audioUnlocked s"
  "keepAliveActive (snd (createPlayer tok ev s)) = keepAliveActive s"
  "scripts (snd (createPlayer tok ev s)) = scripts s"
  "windowSpotify (snd (createPlayer tok ev s)) = windowSpotify s"
  by (cases ev; simp add: createPlayer_def Let_def)+

lemma iphone_is_ios: "isIOSDevice iphone"
  by (simp add: isIOSDevice_def iphone_def)

subsection \<open>The store\<close>

lemma setVolume_clamp:
  "volume (setVolume v st) = (if v < 0 then 0 else if 100 < v then 100 else v)"
  by (simp add: setVolume_def)

lemma setVolume_range: "0 \<le> volume (setVolume v st) \<and> volume (setVolume v st) \<le> 100"
  by (simp add: setVolume_def)

lemma setVolume_boundary: "volume (setVolume 150 st) = 100 \<and> volume (setVolume 100 st) = 100"
  by (simp add: setVolume_def)

text \<open>
  C10. The reset action of the store, which the hook's \<^verbatim>\<open>stop\<close> runs, puts
  \<open>currentTrack\<close>, \<open>isPlaying\<close>, \<open>playbackType\<close>, \<open>progress\<close>, \<open>error\<close> and \<open>isLoading\<close> back
  to their initial values and leaves \<open>volume\<close> as it was.
\<close>

theorem reset_keeps_volume:
  "volume (reset st) = volume st
   \<and> currentTrack (reset st) = currentTrack initial_store
   \<and> isPlaying (reset st) = isPlaying initial_store
   \<and> playbackType (reset st) = playbackType initial_store
   \<and> progress (reset st) = progress initial_store
   \<and> error (reset st) = error initial_store
   \<and> isLoading (reset st) = isLoading initial_store
   \<and> store (stop a) = reset (store a)
   \<and> volume (store (stop a)) = volume (store a)"
  by (simp add: reset_def initial_store_def stop_def)

text \<open>
  C8, at the input 150 once the audio element exists. The store keeps the clamped value
  100; the element is handed the unclamped 150 / 100, refuses it, and stays at 0.8.
\<close>

theorem changeVolume_engine_gets_unclamped:
  "(let a = \<lparr>store = initial_store,
              player = run [Call_preparePreview ''https://p.scdn.co/mp3-preview/x'' 80] initial_state\<rparr>;
        r = changeVolume 150 a
    in volume (store (snd r)) = 100
       \<and> emitted (player a) (player (snd r)) = [AudioSetVolume (3 / 2)]
       \<and> fst r = Some (DOMException ''IndexSizeError'' ''volume out of range'')
       \<and> el_volume (the (audioElement (player (snd r)))) = 4 / 5)"
  by (simp add: changeVolume_def setVolume_def setPreviewVolume_def set_volume_def
      preparePreview_def stopPreview_def ensureAudioElement_def initial_state_def
      initial_store_def new_Audio_def Let_def)

subsection \<open>Reads before the element exists\<close>

text \<open>
  C9. While the shared audio element has not been created, \<^verbatim>\<open>getPreviewProgress\<close> gives
  \<open>(0, 0)\<close>, \<^verbatim>\<open>isPreviewPlaying\<close> gives false, \<^verbatim>\<open>onPreviewProgress\<close> gives a disposer
  that does nothing, and none of them changes the state, so none creates the element.
\<close>

theorem reads_without_element:
  "audioElement s = None \<Longrightarrow>
     getPreviewProgress reading s = (0, 0)
     \<and> \<not> isPreviewPlaying paused s
     \<and> snd (onPreviewProgress cb s) = s
     \<and> unsubscribe (fst (onPreviewProgress cb s)) t = t
     \<and> exec (Call_getPreviewProgress reading) s = s
     \<and> exec (Call_isPreviewPlaying paused) s = s
     \<and> audioElement (exec (Call_onPreviewProgress cb) s) = None"
  by (simp add: getPreviewProgress_def isPreviewPlaying_def onPreviewProgress_def)

theorem reads_without_element_witness:
  "audioElement initial_state = None
   \<and> getPreviewProgress (3, 30) initial_state = (0, 0)
   \<and> \<not> isPreviewPlaying False initial_state
   \<and> snd (onPreviewProgress 7 initial_state) = initial_state
   \<and> unsubscribe (fst (onPreviewProgress 7 initial_state)) (ensureAudioElement initial_state)
       = ensureAudioElement initial_state"
  using reads_without_element [of initial_state "(3, 30)" False 7 "ensureAudioElement initial_state"]
  by (simp add: initial_state_def)

subsection \<open>Preview playback under keep-alive\<close>

text \<open>
  C4. When keep-alive is active, \<^verbatim>\<open>playPreview\<close> makes exactly these calls: it creates the
  element if there is none, clears \<open>loop\<close> and \<open>muted\<close>, assigns the new source, rewinds,
  sets the volume and, if the element accepts the volume, loads and plays, then listens for
  the start. No \<^verbatim>\<open>pause()\<close> is among them: the stop step is not run, neither before the new
  source is assigned nor before \<^verbatim>\<open>play()\<close>.
\<close>

theorem playPreview_keep_alive_skips_stop:
  assumes "keepAliveActive s"
  shows "emitted s (snd (playPreview url vol env s)) =
       (if audioElement s = None then [DomCreateAudio] else [])
     @ [AudioSetLoop False, AudioSetMuted False, AudioSetSrc url, AudioSetCurrentTime 0, AudioSetVolume (vol / 100)]
     @ (if 0 \<le> vol \<and> vol \<le> 100
        then [AudioLoad, AudioPlay] @
          (if play_settles env = Resolved () then [AudioAddListener ''playing'', AudioAddListener ''timeupdate'',
            AudioAddListener ''pause'', AudioRemoveListener ''playing'', AudioRemoveListener ''timeupdate'',
            AudioRemoveListener ''pause''] else [])
        else [])
    \<and> AudioPause \<notin> set (emitted s (snd (playPreview url vol env s)))"
  using assms by (simp add: trace_playPreview emitted_def)

theorem playPreview_keep_alive_skips_stop_witness:
  "keepAliveActive (run [Call_startAutoplayKeepAlive (Resolved ())] initial_state)
   \<and> emitted (run [Call_startAutoplayKeepAlive (Resolved ())] initial_state)
       (snd (playPreview ''https://p.scdn.co/mp3-preview/9af'' 80
              \<lparr>play_settles = Resolved (), start_events = [Playing], paused_at_timeout = False\<rparr>
              (run [Call_startAutoplayKeepAlive (Resolved ())] initial_state)))
     = [AudioSetLoop False, AudioSetMuted False, AudioSetSrc ''https://p.scdn.co/mp3-preview/9af'',
        AudioSetCurrentTime 0, AudioSetVolume (4 / 5), AudioLoad, AudioPlay,
        AudioAddListener ''playing'', AudioAddListener ''timeupdate'', AudioAddListener ''pause'',
        AudioRemoveListener ''playing'', AudioRemoveListener ''timeupdate'',
        AudioRemoveListener ''pause'']"
proof -
  let ?s = "run [Call_startAutoplayKeepAlive (Resolved ())] initial_state"
  have k: "keepAliveActive ?s"
    by (simp add: startAutoplayKeepAlive_def initial_state_def Let_def split_beta)
  have a: "audioElement ?s \<noteq> None"
    by (simp add: startAutoplayKeepAlive_def initial_state_def Let_def split_beta)
  show ?thesis
    using k a playPreview_keep_alive_skips_stop [OF k, of "''https://p.scdn.co/mp3-preview/9af''" 80
      "\<lparr>play_settles = Resolved (), start_events = [Playing], paused_at_timeout = False\<rparr>"]
    by simp
qed

text \<open>Without keep-alive, and with an element, the stop step comes first.\<close>

lemma playPreview_stops_first:
  assumes "\<not> keepAliveActive s" "audioElement s \<noteq> None"
  shows "take 2 (emitted s (snd (playPreview url vol env s))) = [AudioPause, AudioSetCurrentTime 0]"
  using assms by (simp add: trace_playPreview emitted_def)

subsection \<open>The orchestrator\<close>

text \<open>
  C3. With a null credential \<^verbatim>\<open>playTrack\<close> rejects with the log-in message and does
  nothing else: the state is the one it started from and the log gains no entry, so no
  request for the track and no playback strategy was made.
\<close>

theorem playTrack_null_credential:
  "playTrack trackId None vol env s
     = (Rejected (Error ''Please log in with Spotify to play tracks.''), s)
   \<and> emitted s (snd (playTrack trackId None vol env s)) = []"
  by (simp add: playTrack_def)

lemma sdk_untouched_refl [simp]: "sdk_untouched s s"
  by (simp add: sdk_untouched_def)











text \<open>Off iOS the SDK strategy is tried: here the script is appended and never loads.\<close>

lemma playTrack_desktop_tries_sdk:
  "emitted initial_state
     (snd (playTrack ''11dFghVXANMlKmJXsNCbNl'' (Some ''BQDtoken'') 80
            ((sample_env None)\<lparr>nav := Some \<lparr>userAgent = ''Mozilla/5.0 (X11; Linux x86_64)'',
                                            platform = ''Linux x86_64'', maxTouchPoints = 0\<rparr>\<rparr>)
            initial_state))
   = [NetGetTrack ''11dFghVXANMlKmJXsNCbNl'' ''BQDtoken'',
      DomAppendScript ''https://sdk.scdn.co/spotify-player.js'',
      NetPlayConnect ''spotify:track:11dFghVXANMlKmJXsNCbNl'' ''BQDtoken'']"
  by (simp add: playTrack_def getTrack_def playTrack_sdk_def initializeSpotifyPlayer_def
      playTrack_preview_def playTrack_connect_def playWithConnectAPI_def isIOSDevice_def
      sample_env_def sample_track_def initial_state_def emitted_def Let_def)

lemma first_finish_no_signal:
  "list_all (\<lambda>e. e = Pause False) evs \<Longrightarrow> first_finish evs paused = (\<not> paused)"
  by (induction evs) auto

lemma window_elapses_paused_not_started:
  "window_elapses_paused env \<Longrightarrow> \<not> first_finish (start_events env) (paused_at_timeout env)"
  by (simp add: window_elapses_paused_def first_finish_no_signal)

lemma isAutoplayBlockedError_own [simp]: "isAutoplayBlockedError AutoplayBlockedError"
  by (simp add: isAutoplayBlockedError_def error_message_def toLowerCase_def lower_char_def)

lemma fst_playPreview_try:
  "fst (playPreview_try env s) =
     (case play_settles env of
        Pending \<Rightarrow> Pending
      | Rejected e \<Rightarrow> Rejected e
      | Resolved _ \<Rightarrow>
          if first_finish (start_events env) (paused_at_timeout env) then Resolved ()
          else Rejected AutoplayBlockedError)"
  by (simp add: playPreview_try_def Let_def split_beta split: settled.splits)

lemma fst_playPreview:
  "fst (playPreview url vol env s) =
     (if 0 \<le> vol \<and> vol \<le> 100 then
        (case play_settles env of
           Pending \<Rightarrow> Pending
         | Rejected e \<Rightarrow>
             if isAutoplayBlockedError e then Rejected AutoplayBlockedError
             else Rejected (Error ''Failed to play audio preview'')
         | Resolved _ \<Rightarrow>
             if first_finish (start_events env) (paused_at_timeout env) then Resolved ()
             else Rejected AutoplayBlockedError)
      else Rejected (DOMException ''IndexSizeError'' ''volume out of range''))"
proof -
  let ?s6 = "on_audio (AudioSetCurrentTime 0) (\<lambda>a. a)
              (on_audio (AudioSetSrc url) (\<lambda>a. a\<lparr>src := url\<rparr>)
                (on_audio (AudioSetMuted False) (\<lambda>a. a\<lparr>muted := False\<rparr>)
                  (on_audio (AudioSetLoop False) (\<lambda>a. a\<lparr>loop := False\<rparr>)
                    (ensureAudioElement (if \<not> keepAliveActive s then stopPreview s else s)))))"
  obtain r s7 where sv: "set_volume (vol / 100) ?s6 = (r, s7)"
    by (cases "set_volume (vol / 100) ?s6")
  have r: "r = (if 0 \<le> vol \<and> vol \<le> 100 then None
                else Some (DOMException ''IndexSizeError'' ''volume out of range''))"
    using fst_set_volume [of "vol / 100" ?s6] sv by simp
  obtain q s8 where pt: "playPreview_try env s7 = (q, s8)"
    by (cases "playPreview_try env s7")
  have q: "q = (case play_settles env of
        Pending \<Rightarrow> Pending
      | Rejected e \<Rightarrow> Rejected e
      | Resolved _ \<Rightarrow>
          if first_finish (start_events env) (paused_at_timeout env) then Resolved ()
          else Rejected AutoplayBlockedError)"
    using fst_playPreview_try [of env s7] pt by simp
  show ?thesis
    using sv r pt q
    by (simp add: playPreview_def Let_def split: settled.splits)
qed

lemma playTrack_preview_blocked:
  assumes "preview_url t = Some url" "url \<noteq> []" "0 \<le> vol" "vol \<le> 100"
    and "play_settles (preview_run env) = Resolved ()"
    and "\<not> first_finish (start_events (preview_run env)) (paused_at_timeout (preview_run env))"
  shows "fst (playTrack_preview t u tok vol env s)
         = Resolved \<lparr>ptype = Some preview, track = t, autoplayBlocked = Some True\<rparr>"
proof -
  obtain r s1 where p: "playPreview url vol (preview_run env) s = (r, s1)"
    by (cases "playPreview url vol (preview_run env) s")
  have "r = Rejected AutoplayBlockedError"
    using fst_playPreview [of url vol "preview_run env" s] p assms by simp
  then show ?thesis using assms p by (simp add: playTrack_preview_def)
qed

text \<open>
  C1. With a credential, a fetched track that has a preview URL, a volume the element
  accepts, and the SDK strategy skipped (iOS) or failed: if \<^verbatim>\<open>play()\<close> resolves and the
  start-detection window elapses with the element still paused, \<^verbatim>\<open>playTrack\<close> resolves
  with \<^verbatim>\<open>{type: 'preview', track, autoplayBlocked: true}\<close>; it does not throw.
\<close>

theorem playTrack_autoplay_blocked:
  assumes "tok \<noteq> []"
    and "fst (getTrack trackId tok (track_response env) s) = Resolved t"
    and "preview_url t = Some url" "url \<noteq> []"
    and "0 \<le> vol" "vol \<le> 100"
    and "isIOSDevice (nav env)
         \<or> (\<exists>e. fst (playTrack_sdk (''spotify:track:'' @ trackId) tok env
                      (snd (getTrack trackId tok (track_response env) s))) = Rejected e)"
    and "play_settles (preview_run env) = Resolved ()"
    and "window_elapses_paused (preview_run env)"
  shows "fst (playTrack trackId (Some tok) vol env s)
         = Resolved \<lparr>ptype = Some preview, track = t, autoplayBlocked = Some True\<rparr>"
proof -
  obtain s1 where g: "getTrack trackId tok (track_response env) s = (Resolved t, s1)"
    using assms(2) by (cases "getTrack trackId tok (track_response env) s") simp
  note ns = window_elapses_paused_not_started [OF assms(9)]
  note blocked = playTrack_preview_blocked [OF assms(3-6) assms(8) ns]
  show ?thesis
  proof (cases "isIOSDevice (nav env)")
    case True
    then show ?thesis using assms(1) g blocked by (simp add: playTrack_def)
  next
    case False
    then obtain e where "fst (playTrack_sdk (''spotify:track:'' @ trackId) tok env s1) = Rejected e"
      using assms(7) g by auto
    then obtain s2 where "playTrack_sdk (''spotify:track:'' @ trackId) tok env s1 = (Rejected e, s2)"
      by (cases "playTrack_sdk (''spotify:track:'' @ trackId) tok env s1") simp
    then show ?thesis using False assms(1) g blocked by (simp add: playTrack_def)
  qed
qed

theorem playTrack_autoplay_blocked_witness:
  "isIOSDevice (nav (sample_env (Some ''https://p.scdn.co/mp3-preview/9af'')))
   \<and> fst (getTrack ''11dFghVXANMlKmJXsNCbNl'' ''BQDtoken''
            (track_response (sample_env (Some ''https://p.scdn.co/mp3-preview/9af''))) initial_state)
       = Resolved (sample_track (Some ''https://p.scdn.co/mp3-preview/9af''))
   \<and> window_elapses_paused (preview_run (sample_env (Some ''https://p.scdn.co/mp3-preview/9af'')))
   \<and> fst (playTrack ''11dFghVXANMlKmJXsNCbNl'' (Some ''BQDtoken'') 80
            (sample_env (Some ''https://p.scdn.co/mp3-preview/9af'')) initial_state)
       = Resolved \<lparr>ptype = Some preview,
                   track = sample_track (Some ''https://p.scdn.co/mp3-preview/9af''),
                   autoplayBlocked = Some True\<rparr>"
proof -
  let ?env = "sample_env (Some ''https://p.scdn.co/mp3-preview/9af'')"
  let ?t = "sample_track (Some ''https://p.scdn.co/mp3-preview/9af'')"
  have ios: "isIOSDevice (nav ?env)" by (simp add: sample_env_def iphone_is_ios)
  have g: "fst (getTrack ''11dFghVXANMlKmJXsNCbNl'' ''BQDtoken'' (track_response ?env) initial_state)
           = Resolved ?t"
    by (simp add: getTrack_def sample_env_def)
  have p: "preview_url ?t = Some ''https://p.scdn.co/mp3-preview/9af''"
    by (simp add: sample_track_def)
  have w: "window_elapses_paused (preview_run ?env)"
    by (simp add: window_elapses_paused_def sample_env_def)
  have r: "play_settles (preview_run ?env) = Resolved ()" by (simp add: sample_env_def)
  have "fst (playTrack ''11dFghVXANMlKmJXsNCbNl'' (Some ''BQDtoken'') 80 ?env initial_state)
        = Resolved \<lparr>ptype = Some preview, track = ?t, autoplayBlocked = Some True\<rparr>"
    using ios by (intro playTrack_autoplay_blocked [OF _ g p _ _ _ _ r w]) simp_all
  then show ?thesis using ios g w by simp
qed

lemma playWithConnectAPI_fails:
  "request_fails f \<Longrightarrow> \<exists>e. fst (playWithConnectAPI u tok f s) = Rejected e"
  by (auto simp add: request_fails_def playWithConnectAPI_def Let_def split: fetched.splits json.splits)

lemma playWithConnectAPI_result:
  "fst (playWithConnectAPI u tok f s) = Resolved () \<longleftrightarrow> \<not> request_fails f"
  by (auto simp add: request_fails_def playWithConnectAPI_def Let_def split: fetched.splits json.splits)

lemma playTrack_connect_fails:
  assumes "request_fails (connect_response env)"
  shows "fst (playTrack_connect t u tok env s)
         = Rejected (Error ''Could not play track. Please open Spotify on a device and try again.'')"
proof -
  obtain e where "fst (playWithConnectAPI u tok (connect_response env) s) = Rejected e"
    using playWithConnectAPI_fails [OF assms] by blast
  then obtain s1 where "playWithConnectAPI u tok (connect_response env) s = (Rejected e, s1)"
    by (cases "playWithConnectAPI u tok (connect_response env) s") simp
  then show ?thesis by (simp add: playTrack_connect_def)
qed

text \<open>
  C2. With a credential, a fetched track without a preview URL, an iOS platform (so the SDK
  strategy is skipped) and a failing remote-device dispatch, \<^verbatim>\<open>playTrack\<close> rejects with
  the terminal error that tells the user to open Spotify on a device.
\<close>

theorem playTrack_terminal_error:
  assumes "tok \<noteq> []"
    and "fst (getTrack trackId tok (track_response env) s) = Resolved t"
    and "\<not> truthy (preview_url t)"
    and "isIOSDevice (nav env)"
    and "request_fails (connect_response env)"
  shows "fst (playTrack trackId (Some tok) vol env s)
         = Rejected (Error ''Could not play track. Please open Spotify on a device and try again.'')"
proof -
  obtain s1 where g: "getTrack trackId tok (track_response env) s = (Resolved t, s1)"
    using assms(2) by (cases "getTrack trackId tok (track_response env) s") simp
  have "playTrack_preview t (''spotify:track:'' @ trackId) tok vol env s1
        = playTrack_connect t (''spotify:track:'' @ trackId) tok env s1"
    using assms(3) by (cases "preview_url t") (simp_all add: playTrack_preview_def)
  then show ?thesis
    using assms(1,4) g playTrack_connect_fails [OF assms(5)] by (simp add: playTrack_def)
qed

theorem playTrack_terminal_error_witness:
  "isIOSDevice (nav (sample_env None))
   \<and> fst (getTrack ''11dFghVXANMlKmJXsNCbNl'' ''BQDtoken'' (track_response (sample_env None))
            initial_state) = Resolved (sample_track None)
   \<and> \<not> truthy (preview_url (sample_track None))
   \<and> request_fails (connect_response (sample_env None))
   \<and> fst (playTrack ''11dFghVXANMlKmJXsNCbNl'' (Some ''BQDtoken'') 80 (sample_env None) initial_state)
       = Rejected (Error ''Could not play track. Please open Spotify on a device and try again.'')"
proof -
  have ios: "isIOSDevice (nav (sample_env None))" by (simp add: sample_env_def iphone_is_ios)
  have g: "fst (getTrack ''11dFghVXANMlKmJXsNCbNl'' ''BQDtoken'' (track_response (sample_env None))
            initial_state) = Resolved (sample_track None)"
    by (simp add: getTrack_def sample_env_def)
  have p: "\<not> truthy (preview_url (sample_track None))" by (simp add: sample_track_def)
  have f: "request_fails (connect_response (sample_env None))"
    by (simp add: request_fails_def sample_env_def)
  show ?thesis using ios g p f playTrack_terminal_error [OF _ g p ios f, of 80] by simp
qed

subsection \<open>Loading the SDK script\<close>

lemma scripts_initialize:
  "scripts (snd (initializeSpotifyPlayer tok e s))
     = (if windowSpotify s then scripts s else Suc (scripts s))"
  by (cases "createPlayer tok (player_event e)
               (emit (DomAppendScript ''https://sdk.scdn.co/spotify-player.js'')
                 (s\<lparr>scripts := Suc (scripts s), onSpotifyWebPlaybackSDKReady := Some tok\<rparr>)
                \<lparr>windowSpotify := True\<rparr>)" rule: prod.exhaust)
     (auto simp add: initializeSpotifyPlayer_def Let_def split: settled.splits
       dest: arg_cong [where f = "\<lambda>p. scripts (snd p)"])

lemma flags_initialize [simp]:
  "audioUnlocked (snd (initializeSpotifyPlayer tok e s)) = audioUnlocked s"
  "keepAliveActive (snd (initializeSpotifyPlayer tok e s)) = keepAliveActive s"
  by (cases "createPlayer tok (player_event e)
               (emit (DomAppendScript ''https://sdk.scdn.co/spotify-player.js'')
                 (s\<lparr>scripts := Suc (scripts s), onSpotifyWebPlaybackSDKReady := Some tok\<rparr>)
                \<lparr>windowSpotify := True\<rparr>)" rule: prod.exhaust;
     auto simp add: initializeSpotifyPlayer_def Let_def split: settled.splits
       dest: arg_cong [where f = "\<lambda>p. audioUnlocked (snd p)"] arg_cong [where f = "\<lambda>p. keepAliveActive (snd p)"])+

lemma trace_listeners:
  "trace (foldl (\<lambda>t n. emit (SdkAddListener n) t) s ns) = trace s @ map SdkAddListener ns"
  by (induction ns arbitrary: s) simp_all

lemma trace_createPlayer:
  "trace (snd (createPlayer tok ev s))
     = trace s @ SdkCreatePlayer tok # map SdkAddListener sdk_listeners @ [SdkConnect]"
  by (cases ev) (simp_all add: createPlayer_def Let_def trace_listeners)

lemma trace_initialize:
  "trace (snd (initializeSpotifyPlayer tok e s)) = trace s
     @ (if windowSpotify s then [] else [DomAppendScript ''https://sdk.scdn.co/spotify-player.js''])
     @ (if windowSpotify s \<or> script_loads e
        then SdkCreatePlayer tok # map SdkAddListener sdk_listeners @ [SdkConnect] else [])"
proof -
  let ?s1 = "emit (DomAppendScript ''https://sdk.scdn.co/spotify-player.js'')
               (s\<lparr>scripts := Suc (scripts s), onSpotifyWebPlaybackSDKReady := Some tok\<rparr>)"
  obtain r s2 where c: "createPlayer tok (player_event e) (?s1\<lparr>windowSpotify := True\<rparr>) = (r, s2)"
    by (cases "createPlayer tok (player_event e) (?s1\<lparr>windowSpotify := True\<rparr>)")
  have "trace s2 = trace s @ DomAppendScript ''https://sdk.scdn.co/spotify-player.js''
                   # SdkCreatePlayer tok # map SdkAddListener sdk_listeners @ [SdkConnect]"
    using trace_createPlayer [of tok "player_event e" "?s1\<lparr>windowSpotify := True\<rparr>"] c by simp
  then show ?thesis
    using c by (simp add: initializeSpotifyPlayer_def Let_def trace_createPlayer split: settled.splits)
qed

text \<open>
  C6 as stated fails: two calls of \<^verbatim>\<open>initializeSpotifyPlayer\<close> while the SDK has not
  signalled ready (the script never loads) leave two script elements in the document.
\<close>

theorem initialize_appends_script_twice:
  "\<not> scripts (run [Call_initializeSpotifyPlayer ''token''
                      \<lparr>script_loads = False, player_event = Silent\<rparr>,
                    Call_initializeSpotifyPlayer ''token''
                      \<lparr>script_loads = False, player_event = Silent\<rparr>]
                initial_state) \<le> 1"
  by (simp add: initializeSpotifyPlayer_def initial_state_def Let_def)

text \<open>
  C6, amended. A call of \<^verbatim>\<open>initializeSpotifyPlayer\<close> appends the script element exactly
  when \<^verbatim>\<open>window.Spotify\<close> is undefined at the call: then it appends one element, and when
  \<^verbatim>\<open>window.Spotify\<close> is defined it appends none. This is so whatever the script and the
  player do afterwards.
\<close>

theorem initialize_script_count:
  "scripts (snd (initializeSpotifyPlayer tok e s))
     = (if windowSpotify s then scripts s else Suc (scripts s))
   \<and> count_list (emitted s (snd (initializeSpotifyPlayer tok e s)))
         (DomAppendScript ''https://sdk.scdn.co/spotify-player.js'')
     = (if windowSpotify s then 0 else 1)"
  by (simp add: scripts_initialize trace_initialize emitted_def sdk_listeners_def)

theorem initialize_script_count_witness:
  "scripts (snd (initializeSpotifyPlayer ''BQDtoken''
                   \<lparr>script_loads = True, player_event = Ready ''d1''\<rparr> initial_state)) = 1
   \<and> scripts (snd (initializeSpotifyPlayer ''BQDtoken''
                   \<lparr>script_loads = False, player_event = Silent\<rparr>
                   (initial_state\<lparr>windowSpotify := True\<rparr>))) = 0"
  using initialize_script_count [of "''BQDtoken''"
      "\<lparr>script_loads = True, player_event = Ready ''d1''\<rparr>" initial_state]
    initialize_script_count [of "''BQDtoken''"
      "\<lparr>script_loads = False, player_event = Silent\<rparr>" "initial_state\<lparr>windowSpotify := True\<rparr>"]
  by (simp add: initial_state_def)

subsection \<open>The unlocked flag\<close>

lemma keeps_flags_refl [simp]: "keeps_flags s s"
  by (simp add: keeps_flags_def)

lemma keeps_flags_trans: "keeps_flags a b \<Longrightarrow> keeps_flags b c \<Longrightarrow> keeps_flags a c"
  by (simp add: keeps_flags_def)

lemma keepAlive_playPreview_try:
  "keepAliveActive (snd (playPreview_try env s)) \<longrightarrow> keepAliveActive s"
  by (cases "play_settles env") (simp_all add: playPreview_try_def Let_def split_beta)

lemma keeps_flags_playPreview: "keeps_flags s (snd (playPreview url vol env s))"
proof -
  let ?s6 = "on_audio (AudioSetCurrentTime 0) (\<lambda>a. a)
              (on_audio (AudioSetSrc url) (\<lambda>a. a\<lparr>src := url\<rparr>)
                (on_audio (AudioSetMuted False) (\<lambda>a. a\<lparr>muted := False\<rparr>)
                  (on_audio (AudioSetLoop False) (\<lambda>a. a\<lparr>loop := False\<rparr>)
                    (ensureAudioElement (if \<not> keepAliveActive s then stopPreview s else s)))))"
  obtain r s7 where sv: "set_volume (vol / 100) ?s6 = (r, s7)"
    by (cases "set_volume (vol / 100) ?s6")
  have k7: "keepAliveActive s7 = keepAliveActive s"
    using flags_set_volume(2) [of "vol / 100" ?s6] sv by simp
  obtain q s8 where pt: "playPreview_try env s7 = (q, s8)"
    by (cases "playPreview_try env s7")
  have k8: "keepAliveActive s8 \<longrightarrow> keepAliveActive s"
    using keepAlive_playPreview_try [of env s7] pt k7 by simp
  have "keepAliveActive (snd (playPreview url vol env s)) \<longrightarrow> keepAliveActive s"
    using sv pt k7 k8 by (simp add: playPreview_def Let_def split: option.splits settled.splits)
  then show ?thesis by (simp add: keeps_flags_def)
qed

lemma keeps_flags_preparePreview: "keeps_flags s (snd (preparePreview url vol s))"
  by (simp add: keeps_flags_def preparePreview_def Let_def split_beta split: option.splits)

lemma keeps_flags_getTrack: "keeps_flags s (snd (getTrack tid tok f s))"
  by (simp add: keeps_flags_def getTrack_def Let_def split: fetched.splits json.splits)

lemma keeps_flags_playWithSDK: "keeps_flags s (snd (playWithSDK u tok f s))"
  by (simp add: keeps_flags_def playWithSDK_def Let_def split: option.splits fetched.splits json.splits)

lemma keeps_flags_connectAPI: "keeps_flags s (snd (playWithConnectAPI u tok f s))"
  by (simp add: keeps_flags_def playWithConnectAPI_def Let_def split: fetched.splits json.splits)

lemma keeps_flags_initialize: "keeps_flags s (snd (initializeSpotifyPlayer tok e s))"
  by (simp add: keeps_flags_def)

lemma keeps_flags_playTrack_sdk: "keeps_flags s (snd (playTrack_sdk u tok env s))"
proof (cases "truthy (deviceId s)")
  case True
  then show ?thesis by (simp add: playTrack_sdk_def keeps_flags_playWithSDK)
next
  case False
  obtain r s1 where i: "initializeSpotifyPlayer tok (sdk env) s = (r, s1)"
    by (cases "initializeSpotifyPlayer tok (sdk env) s")
  have a: "keeps_flags s s1" using keeps_flags_initialize [of s tok "sdk env"] i by simp
  have "keeps_flags s (snd (playWithSDK u tok (sdk_play_response env) s1))"
    using a keeps_flags_playWithSDK by (rule keeps_flags_trans)
  then show ?thesis using False i a by (simp add: playTrack_sdk_def split: settled.splits)
qed

lemma keeps_flags_playTrack_connect: "keeps_flags s (snd (playTrack_connect t u tok env s))"
  using keeps_flags_connectAPI [of s u tok "connect_response env"]
  by (cases "playWithConnectAPI u tok (connect_response env) s")
     (simp add: playTrack_connect_def split: settled.splits)

lemma keeps_flags_playTrack_preview: "keeps_flags s (snd (playTrack_preview t u tok vol env s))"
proof (cases "preview_url t")
  case None
  then show ?thesis by (simp add: playTrack_preview_def keeps_flags_playTrack_connect)
next
  case (Some url)
  obtain r s1 where p: "playPreview url vol (preview_run env) s = (r, s1)"
    by (cases "playPreview url vol (preview_run env) s")
  have a: "keeps_flags s s1"
    using keeps_flags_playPreview [of s url vol "preview_run env"] p by simp
  have b: "keeps_flags s (snd (playTrack_connect t u tok env s1))"
    using a keeps_flags_playTrack_connect by (rule keeps_flags_trans)
  show ?thesis
    using Some p a b
    by (simp add: playTrack_preview_def keeps_flags_playTrack_connect split: settled.splits)
qed

lemma keeps_flags_playTrack: "keeps_flags s (snd (playTrack trackId accessToken vol env s))"
proof (cases "truthy accessToken")
  case False
  then show ?thesis by (cases accessToken) (simp_all add: playTrack_def)
next
  case True
  then obtain tok where tok: "accessToken = Some tok" "tok \<noteq> []"
    by (cases accessToken) auto
  obtain r s1 where g: "getTrack trackId tok (track_response env) s = (r, s1)"
    by (cases "getTrack trackId tok (track_response env) s")
  have a: "keeps_flags s s1"
    using keeps_flags_getTrack [of s trackId tok "track_response env"] g by simp
  show ?thesis
  proof (cases r)
    case (Resolved t)
    let ?u = "''spotify:track:'' @ trackId"
    have b: "keeps_flags s (snd (playTrack_preview t ?u tok vol env s1))"
      using a keeps_flags_playTrack_preview by (rule keeps_flags_trans)
    obtain q s2 where k: "playTrack_sdk ?u tok env s1 = (q, s2)"
      by (cases "playTrack_sdk ?u tok env s1")
    have c: "keeps_flags s s2"
      using a keeps_flags_playTrack_sdk [of s1 ?u tok env] k by (auto intro: keeps_flags_trans)
    have d: "keeps_flags s (snd (playTrack_preview t ?u tok vol env s2))"
      using c keeps_flags_playTrack_preview by (rule keeps_flags_trans)
    show ?thesis
      using tok g Resolved b k c d by (simp add: playTrack_def Let_def split: settled.splits)
  next
    case (Rejected e)
    then show ?thesis using tok g a by (simp add: playTrack_def)
  next
    case Pending
    then show ?thesis using tok g a by (simp add: playTrack_def)
  qed
qed

lemma keeps_flags_loadTrack: "keeps_flags s (snd (loadTrack trackId accessToken vol f s))"
proof (cases "truthy accessToken")
  case False
  then show ?thesis by (cases accessToken) (simp_all add: loadTrack_def)
next
  case True
  then obtain tok where tok: "accessToken = Some tok" "tok \<noteq> []"
    by (cases accessToken) auto
  obtain r s1 where g: "getTrack trackId tok f s = (r, s1)"
    by (cases "getTrack trackId tok f s")
  have a: "keeps_flags s s1"
    using keeps_flags_getTrack [of s trackId tok f] g by simp
  have b: "keeps_flags s (snd (preparePreview url vol s1))" for url
    using a keeps_flags_preparePreview by (rule keeps_flags_trans)
  show ?thesis
  proof (cases r)
    case (Resolved t)
    show ?thesis
    proof (cases "truthy (preview_url t)")
      case True
      then obtain url where u: "preview_url t = Some url" by (cases "preview_url t") auto
      obtain e s2 where p: "preparePreview url vol s1 = (e, s2)"
        by (cases "preparePreview url vol s1")
      have "keeps_flags s s2" using b [of url] p by simp
      then show ?thesis
        using tok g Resolved True u p by (simp add: loadTrack_def split: option.splits)
    next
      case False
      then show ?thesis using tok g Resolved a by (simp add: loadTrack_def)
    qed
  next
    case (Rejected e)
    then show ?thesis using tok g a by (simp add: loadTrack_def)
  next
    case Pending
    then show ?thesis using tok g a by (simp add: loadTrack_def)
  qed
qed

lemma keeps_flags_simple:
  "keeps_flags s (stopPreview s)" "keeps_flags s (pausePreview s)" "keeps_flags s (resumePreview s)"
  "keeps_flags s (snd (setPreviewVolume v s))" "keeps_flags s (snd (onPreviewProgress cb s))"
  "keeps_flags s (unsubscribe u s)" "keeps_flags s (activateSDKElement b s)"
  "keeps_flags s (stopAutoplayKeepAlive s)" "keeps_flags s (snd (pause p s))"
  "keeps_flags s (snd (resume p s))" "keeps_flags s (stopPlayback s)"
  "keeps_flags s (disconnectPlayer s)"
  by (cases u; simp add: keeps_flags_def pausePreview_def resumePreview_def setPreviewVolume_def
      onPreviewProgress_def activateSDKElement_def stopAutoplayKeepAlive_def pause_def resume_def
      stopPlayback_def disconnectPlayer_def Let_def split: option.splits)+

lemma unlockAudio_flags:
  "(audioUnlocked s \<longrightarrow> audioUnlocked (snd (unlockAudio p s)))
   \<and> keepAliveActive (snd (unlockAudio p s)) = keepAliveActive s"
  by (cases p) (simp_all add: unlockAudio_def Let_def split_beta)

lemma startAutoplayKeepAlive_flags:
  "(audioUnlocked s \<longrightarrow> audioUnlocked (snd (startAutoplayKeepAlive p s)))
   \<and> (keepAliveActive (snd (startAutoplayKeepAlive p s))
        \<longrightarrow> keepAliveActive s \<or> audioUnlocked (snd (startAutoplayKeepAlive p s)))"
  by (cases p) (simp_all add: startAutoplayKeepAlive_def Let_def split_beta)

lemma startAutoplayKeepAlive_success:
  "\<not> keepAliveActive s \<Longrightarrow>
     keepAliveActive (snd (startAutoplayKeepAlive (Resolved ()) s))
     \<and> audioUnlocked (snd (startAutoplayKeepAlive (Resolved ()) s))"
  by (simp add: startAutoplayKeepAlive_def Let_def split_beta)

lemma keeps_flags_step: "keeps_flags s s' \<Longrightarrow> flags_step s s'"
  by (simp add: keeps_flags_def flags_step_def)

lemma exec_flags_step: "flags_step s (exec c s)"
proof (cases c)
  case (Call_unlockAudio p)
  then show ?thesis using unlockAudio_flags [of s p] by (simp add: flags_step_def)
next
  case (Call_startAutoplayKeepAlive p)
  then show ?thesis using startAutoplayKeepAlive_flags [of s p] by (simp add: flags_step_def)
qed (simp_all add: keeps_flags_step keeps_flags_simple keeps_flags_playTrack keeps_flags_loadTrack
      keeps_flags_playPreview keeps_flags_preparePreview keeps_flags_playWithSDK
      keeps_flags_initialize)

lemma run_unlocked: "audioUnlocked s \<Longrightarrow> audioUnlocked (run cs s)"
proof (induction cs arbitrary: s)
  case Nil
  then show ?case by simp
next
  case (Cons c cs)
  have "audioUnlocked (exec c s)"
    using exec_flags_step [of s c] Cons.prems by (simp add: flags_step_def)
  then show ?case using Cons.IH by simp
qed

lemma run_keepAlive_unlocked:
  "keepAliveActive s \<longrightarrow> audioUnlocked s \<Longrightarrow>
     keepAliveActive (run cs s) \<longrightarrow> audioUnlocked (run cs s)"
proof (induction cs arbitrary: s)
  case Nil
  then show ?case by simp
next
  case (Cons c cs)
  have "keepAliveActive (exec c s) \<longrightarrow> audioUnlocked (exec c s)"
    using exec_flags_step [of s c] Cons.prems by (auto simp add: flags_step_def)
  then show ?case using Cons.IH by simp
qed

text \<open>
  C7. Once \<open>audioUnlocked\<close> is true, no sequence of calls of the module makes it false. A
  call of \<^verbatim>\<open>startAutoplayKeepAlive\<close> whose \<^verbatim>\<open>play()\<close> resolves leaves \<open>keepAliveActive\<close>
  and \<open>audioUnlocked\<close> both true: from any state where keep-alive was off, and from every
  state the module can reach from page load.
\<close>

theorem unlocked_monotonic:
  "(audioUnlocked s \<longrightarrow> audioUnlocked (run cs s))
   \<and> (\<not> keepAliveActive s \<longrightarrow>
        keepAliveActive (snd (startAutoplayKeepAlive (Resolved ()) s))
        \<and> audioUnlocked (snd (startAutoplayKeepAlive (Resolved ()) s)))
   \<and> keepAliveActive (snd (startAutoplayKeepAlive (Resolved ()) (run cs initial_state)))
   \<and> audioUnlocked (snd (startAutoplayKeepAlive (Resolved ()) (run cs initial_state)))"
proof -
  have inv: "keepAliveActive (run cs initial_state) \<longrightarrow> audioUnlocked (run cs initial_state)"
    by (rule run_keepAlive_unlocked) (simp add: initial_state_def)
  have "keepAliveActive (snd (startAutoplayKeepAlive (Resolved ()) (run cs initial_state)))
        \<and> audioUnlocked (snd (startAutoplayKeepAlive (Resolved ()) (run cs initial_state)))"
  proof (cases "keepAliveActive (run cs initial_state)")
    case True
    then show ?thesis using inv by (simp add: startAutoplayKeepAlive_def)
  next
    case False
    then show ?thesis by (rule startAutoplayKeepAlive_success)
  qed
  then show ?thesis
    using run_unlocked [of s cs] startAutoplayKeepAlive_success [of s] by blast
qed

theorem unlocked_monotonic_witness:
  "audioUnlocked (snd (unlockAudio (Resolved ()) initial_state))
   \<and> audioUnlocked (run [Call_stopAutoplayKeepAlive, Call_disconnectPlayer, Call_stopPreview,
                          Call_playPreview ''https://p.scdn.co/mp3-preview/9af'' 80
                            \<lparr>play_settles = Rejected (DOMException ''NotAllowedError'' ''denied''),
                              start_events = [], paused_at_timeout = True\<rparr>]
                      (snd (unlockAudio (Resolved ()) initial_state)))
   \<and> \<not> keepAliveActive initial_state
   \<and> keepAliveActive (snd (startAutoplayKeepAlive (Resolved ()) initial_state))
   \<and> audioUnlocked (snd (startAutoplayKeepAlive (Resolved ()) initial_state))"
proof -
  have u: "audioUnlocked (snd (unlockAudio (Resolved ()) initial_state))"
    by (simp add: unlockAudio_def initial_state_def Let_def split_beta)
  have k: "\<not> keepAliveActive initial_state" by (simp add: initial_state_def)
  show ?thesis
    using u k unlocked_monotonic [of "snd (unlockAudio (Resolved ()) initial_state)"
        "[Call_stopAutoplayKeepAlive, Call_disconnectPlayer, Call_stopPreview,
          Call_playPreview ''https://p.scdn.co/mp3-preview/9af'' 80
            \<lparr>play_settles = Rejected (DOMException ''NotAllowedError'' ''denied''),
              start_events = [], paused_at_timeout = True\<rparr>]"]
      unlocked_monotonic [of initial_state "[]"]
    by blast
qed

end
